theory Spec2Isabelle
  imports Main "HOL-Library.List_Lexorder" "HOL-Library.Multiset"
begin

section \<open>Strings, timestamps and errors\<close>

text \<open>
  A Python \<open>str\<close> is a sequence of Unicode code points and is compared code point by
  code point, so a string is a list of naturals under the lexicographic order of
  \<open>List_Lexorder\<close>. \<open>py\<close> turns an ASCII literal of the source into such a string.
\<close>

type_synonym str = "nat list"

definition py :: "string \<Rightarrow> str" where
  "py s = map of_char s"

text \<open>
  Modelled from the spec: timestamps. The source takes \<open>datetime\<close> from the standard
  library. A naive datetime is its wall-clock reading, the distance from
  \<open>datetime.min\<close>, the earliest representable one; an offset-aware datetime is its
  wall-clock reading together with its \<open>utcoffset\<close>. Python orders two naive datetimes
  by their readings and two aware ones by their UTC instants, the reading minus the
  offset: that is \<open>timestamp\<close>. Ordering a naive against an aware datetime raises
  \<open>TypeError\<close>.
\<close>

datatype datetime = Naive nat | Aware nat int

fun is_aware :: "datetime \<Rightarrow> bool" where
  "is_aware (Naive n) = False"
| "is_aware (Aware n off) = True"

fun timestamp :: "datetime \<Rightarrow> int" where
  "timestamp (Naive n) = int n"
| "timestamp (Aware n off) = int n - off"

definition datetime_min :: datetime where
  "datetime_min = Naive 0"

text \<open>
  The ways an operation of \<open>AgentPersistence\<close> raises: the explicit \<open>ValueError\<close> of
  \<open>add_vector_db_to_session\<close>, whatever \<open>Cls(**json.loads(value))\<close> raises on a
  value that is not a serialized record, and the \<open>TypeError\<close> of a sort that has to
  order a naive against an aware datetime.
\<close>

datatype error = ValueError str | DeserializationError | TypeError

section \<open>Domain records and their serialization\<close>

record AgentSessionInfo =
  session_id :: str
  session_name :: str
  vector_db_id :: "str option"
  started_at :: datetime

text \<open>
  Modelled from the spec: \<open>Turn\<close> is imported from \<open>llama_stack.apis.agents\<close>. The
  persistence layer reads its \<open>turn_id\<close> and its optional \<open>completed_at\<close>; everything
  else of a turn is the opaque \<open>turn_content\<close>. A \<open>ToolExecutionStep\<close> is never
  inspected, so it is a type parameter \<open>'s\<close> of the operations that store it.
\<close>

record Turn =
  turn_id :: str
  completed_at :: "datetime option"
  turn_content :: str

text \<open>
  Modelled from the spec: serialization is pydantic's. \<open>model_dump_json\<close> is the
  method of that name; \<open>model_validate\<close> stands for \<open>Cls(**json.loads(value))\<close> and is
  \<open>None\<close> where that expression raises. \<open>codec_ok\<close> is the spec's contract: a
  serialized record is read back unchanged, and the empty string is not JSON.
\<close>

record 'a codec =
  model_dump_json :: "'a \<Rightarrow> str"
  model_validate :: "str \<Rightarrow> 'a option"

definition codec_ok :: "'a codec \<Rightarrow> bool" where
  "codec_ok cd \<longleftrightarrow>
     (\<forall>x. model_validate cd (model_dump_json cd x) = Some x) \<and> model_validate cd [] = None"

section \<open>The key-value backend\<close>

text \<open>
  Modelled from the spec: \<open>KVStore\<close> is imported from
  \<open>llama_stack.providers.utils.kvstore\<close>. It offers \<open>set(key, value)\<close>,
  \<open>get(key)\<close> returning the value or absent, and \<open>range(start_key, end_key)\<close>
  returning the values of all keys in the half-open interval from \<open>start_key\<close> to
  \<open>end_key\<close>, ordered by key. The store is an association list kept sorted by key;
  \<open>calls\<close> records every request the backend has received, in order.
\<close>

datatype kv_call = SetCall str str | GetCall str | RangeCall str str

record KVStore =
  entries :: "(str \<times> str) list"
  calls :: "kv_call list"

definition kv_empty :: KVStore where
  "kv_empty = \<lparr>entries = [], calls = []\<rparr>"

fun upsert :: "str \<Rightarrow> str \<Rightarrow> (str \<times> str) list \<Rightarrow> (str \<times> str) list" where
  "upsert k v [] = [(k, v)]"
| "upsert k v ((k', v') # kvs) =
     (if k = k' then (k, v) # kvs
      else if k < k' then (k, v) # (k', v') # kvs
      else (k', v') # upsert k v kvs)"

definition kv_set :: "str \<Rightarrow> str \<Rightarrow> KVStore \<Rightarrow> KVStore" where
  "kv_set k v st = \<lparr>entries = upsert k v (entries st), calls = calls st @ [SetCall k v]\<rparr>"

definition kv_get :: "str \<Rightarrow> KVStore \<Rightarrow> str option \<times> KVStore" where
  "kv_get k st = (map_of (entries st) k, st\<lparr>calls := calls st @ [GetCall k]\<rparr>)"

definition kv_range :: "str \<Rightarrow> str \<Rightarrow> KVStore \<Rightarrow> str list \<times> KVStore" where
  "kv_range start_key end_key st =
     (map snd (filter (\<lambda>(k, v). start_key \<le> k \<and> k < end_key) (entries st)),
      st\<lparr>calls := calls st @ [RangeCall start_key end_key]\<rparr>)"

definition kv_inv :: "KVStore \<Rightarrow> bool" where
  "kv_inv st \<longleftrightarrow> sorted_wrt (<) (map fst (entries st))"

section \<open>AgentPersistence\<close>

record AgentPersistence =
  agent_id :: str
  kvstore :: KVStore

text \<open>The three key patterns of the source's f-strings.\<close>

definition session_key :: "str \<Rightarrow> str \<Rightarrow> str" where
  "session_key ag sid = py ''session:'' @ ag @ py '':'' @ sid"

definition turn_key :: "str \<Rightarrow> str \<Rightarrow> str \<Rightarrow> str" where
  "turn_key ag sid tid = py ''session:'' @ ag @ py '':'' @ sid @ py '':'' @ tid"

definition step_key :: "str \<Rightarrow> str \<Rightarrow> str \<Rightarrow> str" where
  "step_key ag sid tid =
     py ''in_progress_tool_call_step:'' @ ag @ py '':'' @ sid @ py '':'' @ tid"

text \<open>The bounds of the scan in \<open>get_session_turns\<close>; \<open>\xff\<close> is code point 255.\<close>

definition xff4 :: str where
  "xff4 = [255, 255, 255, 255]"

definition turns_start_key :: "str \<Rightarrow> str \<Rightarrow> str" where
  "turns_start_key ag sid = py ''session:'' @ ag @ py '':'' @ sid @ py '':''"

definition turns_end_key :: "str \<Rightarrow> str \<Rightarrow> str" where
  "turns_end_key ag sid = py ''session:'' @ ag @ py '':'' @ sid @ py '':'' @ xff4"

text \<open>
  \<open>create_session\<close>: \<open>uuid4\<close> is the string of the fresh \<open>uuid.uuid4()\<close> and \<open>now\<close>
  the value of \<open>datetime.now()\<close>, both supplied by the environment.
\<close>

definition create_session ::
  "AgentSessionInfo codec \<Rightarrow> AgentPersistence \<Rightarrow> str \<Rightarrow> datetime \<Rightarrow> str
     \<Rightarrow> str \<times> AgentPersistence" where
  "create_session cd self uuid4 now name =
     (let session_info =
            \<lparr>session_id = uuid4, session_name = name, vector_db_id = None, started_at = now\<rparr>
      in (uuid4,
          self\<lparr>kvstore := kv_set (session_key (agent_id self) uuid4)
                             (model_dump_json cd session_info) (kvstore self)\<rparr>))"

text \<open>
  The point reads share one shape: \<open>get\<close>, then \<open>if not value\<close> (true for \<open>None\<close> and
  for the empty string), then deserialization, whose exception is not caught.
\<close>

definition load_value :: "'a codec \<Rightarrow> str option \<Rightarrow> error + 'a option" where
  "load_value cd value =
     (case value of
        None \<Rightarrow> Inr None
      | Some s \<Rightarrow>
          if s = [] then Inr None
          else (case model_validate cd s of
                  None \<Rightarrow> Inl DeserializationError
                | Some x \<Rightarrow> Inr (Some x)))"

definition get_session_info ::
  "AgentSessionInfo codec \<Rightarrow> AgentPersistence \<Rightarrow> str
     \<Rightarrow> (error + AgentSessionInfo option) \<times> AgentPersistence" where
  "get_session_info cd self sid =
     (let (value, kv) = kv_get (session_key (agent_id self) sid) (kvstore self)
      in (load_value cd value, self\<lparr>kvstore := kv\<rparr>))"

definition add_vector_db_to_session ::
  "AgentSessionInfo codec \<Rightarrow> AgentPersistence \<Rightarrow> str \<Rightarrow> str
     \<Rightarrow> (error + unit) \<times> AgentPersistence" where
  "add_vector_db_to_session cd self sid vdb =
     (case get_session_info cd self sid of
        (Inl e, self1) \<Rightarrow> (Inl e, self1)
      | (Inr None, self1) \<Rightarrow>
          (Inl (ValueError (py ''Session '' @ sid @ py '' not found'')), self1)
      | (Inr (Some session_info), self1) \<Rightarrow>
          (Inr (),
           self1\<lparr>kvstore := kv_set (session_key (agent_id self1) sid)
                               (model_dump_json cd (session_info\<lparr>vector_db_id := Some vdb\<rparr>))
                               (kvstore self1)\<rparr>))"

definition add_turn_to_session ::
  "Turn codec \<Rightarrow> AgentPersistence \<Rightarrow> str \<Rightarrow> Turn \<Rightarrow> AgentPersistence" where
  "add_turn_to_session cd self sid turn =
     self\<lparr>kvstore := kv_set (turn_key (agent_id self) sid (turn_id turn))
                        (model_dump_json cd turn) (kvstore self)\<rparr>"

text \<open>
  The loop of \<open>get_session_turns\<close>: a value that fails to parse is logged and skipped
  (\<open>continue\<close>), a parsed one is appended to \<open>turns\<close>. The module's logger is
  not part of the store, so the log line leaves no trace in the state.
\<close>

fun parse_turns :: "Turn codec \<Rightarrow> Turn list \<Rightarrow> str list \<Rightarrow> Turn list" where
  "parse_turns cd turns [] = turns"
| "parse_turns cd turns (value # values) =
     (case model_validate cd value of
        Some turn \<Rightarrow> parse_turns cd (turns @ [turn]) values
      | None \<Rightarrow> parse_turns cd turns values)"

text \<open>The sort key \<open>x.completed_at or datetime.min\<close>; a datetime is never falsy.\<close>

definition turn_sort_key :: "Turn \<Rightarrow> datetime" where
  "turn_sort_key x = (case completed_at x of None \<Rightarrow> datetime_min | Some t \<Rightarrow> t)"

text \<open>
  \<open>turns.sort(key=...)\<close> stands outside the \<open>try\<close>. \<open>list.sort\<close> is stable and orders
  the keys with \<open><\<close>; the comparisons of a sort connect all elements of the list, so
  when the keys hold both a naive and an aware datetime one comparison is between the
  two kinds and the sort raises. Otherwise the keys are ordered by \<open>timestamp\<close>.
\<close>

definition sort_turns :: "Turn list \<Rightarrow> error + Turn list" where
  "sort_turns turns =
     (let keys = map turn_sort_key turns
      in if list_ex is_aware keys \<and> list_ex (\<lambda>k. \<not> is_aware k) keys then Inl TypeError
         else Inr (sort_key (\<lambda>x. timestamp (turn_sort_key x)) turns))"

definition get_session_turns ::
  "Turn codec \<Rightarrow> AgentPersistence \<Rightarrow> str \<Rightarrow> (error + Turn list) \<times> AgentPersistence" where
  "get_session_turns cd self sid =
     (let (values, kv) = kv_range (turns_start_key (agent_id self) sid)
                           (turns_end_key (agent_id self) sid) (kvstore self);
          turns = parse_turns cd [] values
      in (sort_turns turns, self\<lparr>kvstore := kv\<rparr>))"

definition get_session_turn ::
  "Turn codec \<Rightarrow> AgentPersistence \<Rightarrow> str \<Rightarrow> str
     \<Rightarrow> (error + Turn option) \<times> AgentPersistence" where
  "get_session_turn cd self sid tid =
     (let (value, kv) = kv_get (turn_key (agent_id self) sid tid) (kvstore self)
      in (load_value cd value, self\<lparr>kvstore := kv\<rparr>))"

definition set_in_progress_tool_call_step ::
  "'s codec \<Rightarrow> AgentPersistence \<Rightarrow> str \<Rightarrow> str \<Rightarrow> 's \<Rightarrow> AgentPersistence" where
  "set_in_progress_tool_call_step cd self sid tid step =
     self\<lparr>kvstore := kv_set (step_key (agent_id self) sid tid)
                        (model_dump_json cd step) (kvstore self)\<rparr>"

definition get_in_progress_tool_call_step ::
  "'s codec \<Rightarrow> AgentPersistence \<Rightarrow> str \<Rightarrow> str
     \<Rightarrow> (error + 's option) \<times> AgentPersistence" where
  "get_in_progress_tool_call_step cd self sid tid =
     (let (value, kv) = kv_get (step_key (agent_id self) sid tid) (kvstore self)
      in (load_value cd value, self\<lparr>kvstore := kv\<rparr>))"

section \<open>A concrete serialization\<close>

text \<open>
  A small length-prefixed format that satisfies \<open>codec_ok\<close>; the examples below run
  the operations with it. Every serialized record starts with the code point of an
  opening brace, as a JSON object does.
\<close>

definition put_str :: "str \<Rightarrow> str" where
  "put_str s = length s # s"

definition get_str :: "str \<Rightarrow> (str \<times> str) option" where
  "get_str v =
     (case v of
        [] \<Rightarrow> None
      | n # r \<Rightarrow> if n \<le> length r then Some (take n r, drop n r) else None)"

fun put_datetime :: "datetime \<Rightarrow> str" where
  "put_datetime (Naive n) = [0, n]"
| "put_datetime (Aware n off) = [1, n, (if off < 0 then 1 else 0), nat \<bar>off\<bar>]"

definition get_datetime :: "str \<Rightarrow> (datetime \<times> str) option" where
  "get_datetime v =
     (case v of
        tag # n # r \<Rightarrow>
          if tag = 0 then Some (Naive n, r)
          else if tag = 1
          then (case r of
                  sign # m # r' \<Rightarrow>
                    if sign = 0 then Some (Aware n (int m), r')
                    else if sign = 1 then Some (Aware n (- int m), r')
                    else None
                | _ \<Rightarrow> None)
          else None
      | _ \<Rightarrow> None)"

definition dump_turn :: "Turn \<Rightarrow> str" where
  "dump_turn t =
     123 # put_str (turn_id t) @
       (case completed_at t of None \<Rightarrow> [0] | Some c \<Rightarrow> 1 # put_datetime c) @
       turn_content t"

definition load_turn :: "str \<Rightarrow> Turn option" where
  "load_turn v =
     (case v of
        [] \<Rightarrow> None
      | b # r \<Rightarrow>
          if b \<noteq> 123 then None
          else (case get_str r of
                  None \<Rightarrow> None
                | Some (tid, r1) \<Rightarrow>
                    (case r1 of
                       [] \<Rightarrow> None
                     | tag # r2 \<Rightarrow>
                         if tag = 0
                         then Some \<lparr>turn_id = tid, completed_at = None, turn_content = r2\<rparr>
                         else if tag = 1
                         then (case get_datetime r2 of
                                 None \<Rightarrow> None
                               | Some (c, r3) \<Rightarrow>
                                   Some \<lparr>turn_id = tid, completed_at = Some c,
                                         turn_content = r3\<rparr>)
                         else None)))"

definition demo_turn_codec :: "Turn codec" where
  "demo_turn_codec = \<lparr>model_dump_json = dump_turn, model_validate = load_turn\<rparr>"

definition dump_session_info :: "AgentSessionInfo \<Rightarrow> str" where
  "dump_session_info i =
     123 # put_str (session_id i) @ put_str (session_name i) @
       (case vector_db_id i of None \<Rightarrow> [0] | Some d \<Rightarrow> 1 # put_str d) @
       put_datetime (started_at i)"

definition load_session_info :: "str \<Rightarrow> AgentSessionInfo option" where
  "load_session_info v =
     (case v of
        [] \<Rightarrow> None
      | b # r \<Rightarrow>
          if b \<noteq> 123 then None
          else (case get_str r of
                  None \<Rightarrow> None
                | Some (sid, r1) \<Rightarrow>
                    (case get_str r1 of
                       None \<Rightarrow> None
                     | Some (name, r2) \<Rightarrow>
                         (case r2 of
                            [] \<Rightarrow> None
                          | tag # r3 \<Rightarrow>
                              if tag = 0
                              then (case get_datetime r3 of
                                      Some (t, []) \<Rightarrow>
                                        Some \<lparr>session_id = sid, session_name = name,
                                              vector_db_id = None, started_at = t\<rparr>
                                    | _ \<Rightarrow> None)
                              else if tag = 1
                              then (case get_str r3 of
                                      Some (d, r4) \<Rightarrow>
                                        (case get_datetime r4 of
                                           Some (t, []) \<Rightarrow>
                                             Some \<lparr>session_id = sid, session_name = name,
                                                   vector_db_id = Some d, started_at = t\<rparr>
                                         | _ \<Rightarrow> None)
                                    | None \<Rightarrow> None)
                              else None))))"

definition demo_session_codec :: "AgentSessionInfo codec" where
  "demo_session_codec =
     \<lparr>model_dump_json = dump_session_info, model_validate = load_session_info\<rparr>"

definition demo_step_codec :: "str codec" where
  "demo_step_codec =
     \<lparr>model_dump_json = (\<lambda>s. 123 # s),
      model_validate = (\<lambda>v. case v of [] \<Rightarrow> None | b # r \<Rightarrow> if b = 123 then Some r else None)\<rparr>"

definition demo_store :: AgentPersistence where
  "demo_store = \<lparr>agent_id = py ''a1'', kvstore = kv_empty\<rparr>"



text \<open>A string without the delimiter of the key schema, the colon (code point 58).\<close>

definition colon_free :: "str \<Rightarrow> bool" where
  "colon_free s \<longleftrightarrow> (58::nat) \<notin> set s"

text \<open>
  The sort keys of a list of turns can be ordered among themselves: all of them are
  aware, or none is (an absent \<open>completed_at\<close> counts as the naive \<open>datetime.min\<close>).
\<close>

definition comparable_keys :: "Turn list \<Rightarrow> bool" where
  "comparable_keys turns \<longleftrightarrow>
     list_all (\<lambda>x. is_aware (turn_sort_key x)) turns \<or>
     list_all (\<lambda>x. \<not> is_aware (turn_sort_key x)) turns"

text \<open>A caller adding a sequence of turns to one session, one call after the other.\<close>

fun add_turns :: "Turn codec \<Rightarrow> AgentPersistence \<Rightarrow> str \<Rightarrow> Turn list \<Rightarrow> AgentPersistence" where
  "add_turns cd self sid [] = self"
| "add_turns cd self sid (turn # turns) =
     add_turns cd (add_turn_to_session cd self sid turn) sid turns"

section \<open>Example stores\<close>

definition demo_turn :: "string \<Rightarrow> datetime option \<Rightarrow> Turn" where
  "demo_turn tid c = \<lparr>turn_id = py tid, completed_at = c, turn_content = py ''hello''\<rparr>"

definition demo_two_sessions :: AgentPersistence where
  "demo_two_sessions =
     add_turn_to_session demo_turn_codec
       (add_turn_to_session demo_turn_codec demo_store (py ''s1'') (demo_turn ''t1'' None))
       (py ''s10'') (demo_turn ''t2'' None)"

definition demo_three_turns :: "Turn list" where
  "demo_three_turns =
     [demo_turn ''a'' (Some (Naive 5)), demo_turn ''b'' None, demo_turn ''c'' (Some (Naive 3))]"

definition demo_corrupt :: AgentPersistence where
  "demo_corrupt =
     add_turn_to_session demo_turn_codec
       (demo_store\<lparr>kvstore :=
          kv_set (step_key (py ''a1'') (py ''s1'') (py ''t1'')) [1]
            (kv_set (turn_key (py ''a1'') (py ''s1'') (py ''t1'')) [1, 2, 3] kv_empty)\<rparr>)
       (py ''s1'') (demo_turn ''t2'' (Some (Naive 4)))"

definition demo_mixed :: AgentPersistence where
  "demo_mixed =
     add_turn_to_session demo_turn_codec demo_corrupt (py ''s1'')
       (demo_turn ''t3'' (Some (Aware 4 0)))"

definition demo_blank :: AgentPersistence where
  "demo_blank =
     demo_store\<lparr>kvstore :=
       kv_set (step_key (py ''a1'') (py ''s1'') (py ''t1'')) []
         (kv_set (turn_key (py ''a1'') (py ''s1'') (py ''t1'')) [] kv_empty)\<rparr>"

definition demo_session :: AgentPersistence where
  "demo_session =
     add_turn_to_session demo_turn_codec
       (snd (create_session demo_session_codec demo_store (py ''u1'') (Naive 7) (py ''demo'')))
       (py ''u1'') (demo_turn ''a'' (Some (Naive 5)))"

lemmas demo_simps =
  py_def xff4_def datetime_min_def kv_empty_def kv_set_def kv_get_def kv_range_def
  session_key_def turn_key_def step_key_def turns_start_key_def turns_end_key_def
  create_session_def load_value_def get_session_info_def add_vector_db_to_session_def
  add_turn_to_session_def turn_sort_key_def sort_turns_def get_session_turns_def
  get_session_turn_def set_in_progress_tool_call_step_def get_in_progress_tool_call_step_def
  put_str_def get_str_def get_datetime_def dump_turn_def load_turn_def demo_turn_codec_def
  dump_session_info_def load_session_info_def demo_session_codec_def demo_step_codec_def
  demo_store_def demo_turn_def colon_free_def comparable_keys_def Let_def

section \<open>The serialization and the backend\<close>

lemma get_put_str: "get_str (put_str s @ r) = Some (s, r)"
  by (simp add: get_str_def put_str_def)

lemma get_put_datetime: "get_datetime (put_datetime d @ r) = Some (d, r)"
  by (cases d) (auto simp: get_datetime_def)

lemma demo_turn_codec_ok: "codec_ok demo_turn_codec"
  by (auto simp: codec_ok_def demo_turn_codec_def dump_turn_def load_turn_def get_put_str
      get_put_datetime split: option.splits)

lemma demo_session_codec_ok: "codec_ok demo_session_codec"
proof -
  have "get_datetime (put_datetime d) = Some (d, [])" for d
    using get_put_datetime [of d "[]"] by simp
  then show ?thesis
    by (auto simp: codec_ok_def demo_session_codec_def dump_session_info_def
        load_session_info_def get_put_str split: option.splits)
qed

lemma demo_step_codec_ok: "codec_ok demo_step_codec"
  by (simp add: codec_ok_def demo_step_codec_def)

lemma codec_ok_load: "codec_ok cd \<Longrightarrow> model_validate cd (model_dump_json cd x) = Some x"
  by (simp add: codec_ok_def)

lemma codec_ok_nonempty: "codec_ok cd \<Longrightarrow> model_dump_json cd x \<noteq> []"
  by (metis codec_ok_def option.distinct(1))

lemma load_value_dump: "codec_ok cd \<Longrightarrow> load_value cd (Some (model_dump_json cd x)) = Inr (Some x)"
  by (simp add: load_value_def codec_ok_load codec_ok_nonempty)

lemma map_of_upsert: "map_of (upsert k v kvs) = (map_of kvs)(k \<mapsto> v)"
  by (induction kvs) (auto simp: fun_eq_iff)

lemma upsert_keys: "fst ` set (upsert k v kvs) = insert k (fst ` set kvs)"
proof (induction kvs)
  case Nil
  then show ?case by simp
next
  case (Cons p kvs)
  obtain k' v' where p: "p = (k', v')" by (cases p)
  from Cons p show ?case by (simp add: insert_commute)
qed

lemma upsert_sorted:
  "sorted_wrt (<) (map fst kvs) \<Longrightarrow> sorted_wrt (<) (map fst (upsert k v kvs))"
proof (induction kvs)
  case Nil
  then show ?case by simp
next
  case (Cons p kvs)
  obtain k' v' where p: "p = (k', v')" by (cases p)
  show ?case
  proof (cases "k = k' \<or> k < k'")
    case True
    with Cons.prems p show ?thesis by auto
  next
    case False
    then have "k' < k" by auto
    with Cons p False show ?thesis by (auto simp: upsert_keys)
  qed
qed

lemma upsert_filter_key:
  "sorted_wrt (<) (map fst kvs) \<Longrightarrow> filter (\<lambda>(k', v'). k' = k) (upsert k v kvs) = [(k, v)]"
proof (induction kvs)
  case Nil
  then show ?case by simp
next
  case (Cons p kvs)
  obtain k' v' where p: "p = (k', v')" by (cases p)
  from Cons.prems p have above: "\<forall>q \<in> set kvs. k' < fst q" by auto
  show ?case
  proof (cases "k = k' \<or> k < k'")
    case True
    with above have "filter (\<lambda>(k', v'). k' = k) kvs = []"
      by (auto simp: filter_empty_conv)
    with True p show ?thesis by auto
  next
    case False
    with Cons p show ?thesis by auto
  qed
qed

section \<open>The scan of a session's turns\<close>

lemma scan_range_iff:
  fixes p :: str
  shows "p \<le> k \<and> k < p @ f \<longleftrightarrow> (\<exists>t. k = p @ t \<and> t < f)"
proof (induction p arbitrary: k)
  case Nil
  then show ?case by simp
next
  case (Cons a p)
  show ?case
  proof (cases k)
    case Nil
    then show ?thesis by simp
  next
    case (Cons b k')
    with Cons.IH[of k'] show ?thesis by auto
  qed
qed

lemma turns_range_iff:
  "turns_start_key ag sid \<le> k \<and> k < turns_end_key ag sid \<longleftrightarrow>
     (\<exists>tid. tid < xff4 \<and> k = turn_key ag sid tid)"
proof -
  have "turns_end_key ag sid = turns_start_key ag sid @ xff4"
    by (simp add: turns_end_key_def turns_start_key_def)
  moreover have "turn_key ag sid tid = turns_start_key ag sid @ tid" for tid
    by (simp add: turn_key_def turns_start_key_def)
  ultimately show ?thesis
    using scan_range_iff[of "turns_start_key ag sid" k xff4] by auto
qed

lemma parse_turns_acc:
  "parse_turns cd acc vs = acc @ List.map_filter (model_validate cd) vs"
  by (induction vs arbitrary: acc) (auto split: option.splits)

lemma colon_split_unique:
  "c \<notin> set xs \<Longrightarrow> c \<notin> set ys \<Longrightarrow> xs @ c # r = ys @ c # r' \<Longrightarrow> xs = ys"
proof (induction xs arbitrary: ys)
  case Nil
  then show ?case by (cases ys) auto
next
  case (Cons x xs)
  then show ?case by (cases ys) auto
qed

lemma py_colon: "py '':'' = [58]"
  by (simp add: py_def)

lemma sort_turns_iff:
  "sort_turns turns =
     (if comparable_keys turns
      then Inr (sort_key (\<lambda>x. timestamp (turn_sort_key x)) turns) else Inl TypeError)"
  by (auto simp: sort_turns_def comparable_keys_def Let_def list_ex_iff list_all_iff)

lemma mset_map_filter:
  "mset (List.map_filter f vs) =
     image_mset (\<lambda>v. the (f v)) (filter_mset (\<lambda>v. f v \<noteq> None) (mset vs))"
  by (induction vs) (auto split: option.splits)

lemma get_session_turns_eq:
  "fst (get_session_turns cd self sid) =
     sort_turns (List.map_filter (model_validate cd)
       (map snd (filter (\<lambda>(k, v). \<exists>tid. tid < xff4 \<and> k = turn_key (agent_id self) sid tid)
          (entries (kvstore self)))))"
  by (simp add: get_session_turns_def kv_range_def parse_turns_acc turns_range_iff)

lemma turn_key_cross:
  assumes "colon_free ag" "colon_free ag'" "colon_free sid" "colon_free sid'"
    and eq: "turn_key ag' sid' tid' = turn_key ag sid tid"
  shows "ag' = ag \<and> sid' = sid"
proof -
  from eq have e1: "ag' @ 58 # (sid' @ 58 # tid') = ag @ 58 # (sid @ 58 # tid)"
    by (simp add: turn_key_def py_colon)
  with assms(1,2) have ag: "ag' = ag"
    by (intro colon_split_unique [of 58 ag' ag]) (simp_all add: colon_free_def)
  with e1 have "sid' @ 58 # tid' = sid @ 58 # tid" by simp
  with assms(3,4) have "sid' = sid"
    by (intro colon_split_unique [of 58 sid' sid]) (simp_all add: colon_free_def)
  with ag show ?thesis by simp
qed

lemma session_key_cross:
  assumes "colon_free ag" "colon_free ag'" "colon_free sid'"
  shows "session_key ag' sid' \<noteq> turn_key ag sid tid"
proof
  assume "session_key ag' sid' = turn_key ag sid tid"
  then have e1: "ag' @ 58 # sid' = ag @ 58 # (sid @ 58 # tid)"
    by (simp add: turn_key_def session_key_def py_colon)
  with assms(1,2) have "ag' = ag"
    by (intro colon_split_unique [of 58 ag' ag]) (simp_all add: colon_free_def)
  with e1 have "sid' = sid @ 58 # tid" by simp
  with assms(3) show False by (simp add: colon_free_def)
qed

lemma upsert_fresh_mset:
  "k \<notin> fst ` set kvs \<Longrightarrow> mset (upsert k v kvs) = add_mset (k, v) (mset kvs)"
  by (induction kvs) auto

lemma add_turns_agent_id: "agent_id (add_turns cd self sid turns) = agent_id self"
  by (induction turns arbitrary: self) (simp_all add: add_turn_to_session_def)

lemma add_turns_entries:
  assumes "distinct (map turn_id turns)"
    and "\<forall>t \<in> set turns.
           turn_key (agent_id self) sid (turn_id t) \<notin> fst ` set (entries (kvstore self))"
  shows "mset (entries (kvstore (add_turns cd self sid turns))) =
     mset (entries (kvstore self)) +
     mset (map (\<lambda>t. (turn_key (agent_id self) sid (turn_id t), model_dump_json cd t)) turns)"
  using assms
proof (induction turns arbitrary: self)
  case Nil
  then show ?case by simp
next
  case (Cons t turns)
  let ?k = "turn_key (agent_id self) sid (turn_id t)"
  let ?self1 = "add_turn_to_session cd self sid t"
  have ag: "agent_id ?self1 = agent_id self"
    by (simp add: add_turn_to_session_def)
  have ent: "entries (kvstore ?self1) = upsert ?k (model_dump_json cd t) (entries (kvstore self))"
    by (simp add: add_turn_to_session_def kv_set_def)
  from Cons.prems have fresh: "?k \<notin> fst ` set (entries (kvstore self))" by simp
  have "\<forall>u \<in> set turns.
      turn_key (agent_id ?self1) sid (turn_id u) \<notin> fst ` set (entries (kvstore ?self1))"
  proof
    fix u assume u: "u \<in> set turns"
    from Cons.prems(1) have "turn_id t \<notin> set (map turn_id turns)" by simp
    with u have "turn_id u \<noteq> turn_id t"
      by (metis image_eqI set_map)
    then have "turn_key (agent_id self) sid (turn_id u) \<noteq> ?k"
      by (simp add: turn_key_def)
    with u Cons.prems(2) show
      "turn_key (agent_id ?self1) sid (turn_id u) \<notin> fst ` set (entries (kvstore ?self1))"
      by (simp add: ag ent upsert_keys)
  qed
  with Cons.prems(1) Cons.IH [of ?self1]
  have "mset (entries (kvstore (add_turns cd ?self1 sid turns))) =
     mset (entries (kvstore ?self1)) +
     mset (map (\<lambda>u. (turn_key (agent_id ?self1) sid (turn_id u), model_dump_json cd u)) turns)"
    by simp
  with fresh show ?case
    by (simp add: ag ent upsert_fresh_mset)
qed

text \<open>
  Claim C1, as amended. What \<open>get_session_turns\<close> parses, sorts and, when the sort
  succeeds, returns are exactly the values stored under those turn keys of the session
  whose turn id is lexicographically below \<open>\xff\xff\xff\xff\<close>. When agent ids and
  session ids contain no colon, no turn key of a different agent or session id (also one
  that shares a string prefix with this one) and no session-metadata key is a turn key of
  this session; the session's own metadata key and every in-progress tool-call key never
  are.
\<close>

theorem get_session_turns_scope:
  "fst (get_session_turns cd self sid) =
     sort_turns (List.map_filter (model_validate cd)
       (map snd (filter (\<lambda>(k, v). \<exists>tid. tid < xff4 \<and> k = turn_key (agent_id self) sid tid)
          (entries (kvstore self))))) \<and>
   (fst (get_session_turns cd self sid) = Inr ts \<longrightarrow>
      mset ts = mset (List.map_filter (model_validate cd)
        (map snd (filter (\<lambda>(k, v). \<exists>tid. tid < xff4 \<and> k = turn_key (agent_id self) sid tid)
           (entries (kvstore self)))))) \<and>
   (colon_free (agent_id self) \<and> colon_free ag' \<and> colon_free sid \<and> colon_free sid' \<and>
      (ag' \<noteq> agent_id self \<or> sid' \<noteq> sid) \<longrightarrow>
      turn_key ag' sid' tid' \<noteq> turn_key (agent_id self) sid tid) \<and>
   (colon_free (agent_id self) \<and> colon_free ag' \<and> colon_free sid' \<longrightarrow>
      session_key ag' sid' \<noteq> turn_key (agent_id self) sid tid) \<and>
   session_key (agent_id self) sid \<noteq> turn_key (agent_id self) sid tid \<and>
   step_key ag2 sid2 tid2 \<noteq> turn_key (agent_id self) sid tid"
proof -
  let ?ag = "agent_id self"
  let ?scan = "List.map_filter (model_validate cd)
       (map snd (filter (\<lambda>(k, v). \<exists>tid. tid < xff4 \<and> k = turn_key ?ag sid tid)
          (entries (kvstore self))))"
  have scan: "fst (get_session_turns cd self sid) = sort_turns ?scan"
    by (rule get_session_turns_eq)
  have ret: "mset ts = mset ?scan" if "fst (get_session_turns cd self sid) = Inr ts"
    using that scan by (auto simp: sort_turns_iff split: if_splits)
  have other: "turn_key ag' sid' tid' \<noteq> turn_key ?ag sid tid"
    if "colon_free ?ag" "colon_free ag'" "colon_free sid" "colon_free sid'"
      and "ag' \<noteq> ?ag \<or> sid' \<noteq> sid"
    using that turn_key_cross [of ?ag ag' sid sid' tid' tid] by blast
  have meta: "session_key ag' sid' \<noteq> turn_key ?ag sid tid"
    if "colon_free ?ag" "colon_free ag'" "colon_free sid'"
    using that by (rule session_key_cross)
  have own: "session_key ?ag sid \<noteq> turn_key ?ag sid tid"
    by (simp add: turn_key_def session_key_def py_colon)
  have fam: "step_key ag2 sid2 tid2 \<noteq> turn_key ?ag sid tid"
    by (simp add: step_key_def turn_key_def py_def)
  from scan ret other meta own fam show ?thesis by blast
qed

text \<open>
  Two sessions \<open>s1\<close> and \<open>s10\<close> with one turn each: the scan for \<open>s1\<close> returns the
  turn of \<open>s1\<close> only, and the keys of session \<open>s10\<close> and of agent \<open>a10\<close> are no
  turn keys of session \<open>s1\<close> of agent \<open>a1\<close>.
\<close>

theorem get_session_turns_scope_witness:
  "colon_free (agent_id demo_two_sessions) \<and> colon_free (py ''a10'') \<and>
   colon_free (py ''s1'') \<and> colon_free (py ''s10'') \<and> py ''s10'' \<noteq> py ''s1'' \<and>
   turn_key (py ''a10'') (py ''s10'') (py ''t2'') \<noteq>
     turn_key (agent_id demo_two_sessions) (py ''s1'') (py ''t2'') \<and>
   session_key (py ''a10'') (py ''s10'') \<noteq>
     turn_key (agent_id demo_two_sessions) (py ''s1'') (py ''t2'') \<and>
   fst (get_session_turns demo_turn_codec demo_two_sessions (py ''s1'')) =
     Inr [demo_turn ''t1'' None] \<and>
   mset [demo_turn ''t1'' None] =
     mset (List.map_filter (model_validate demo_turn_codec)
       (map snd (filter (\<lambda>(k, v). \<exists>tid. tid < xff4 \<and>
            k = turn_key (agent_id demo_two_sessions) (py ''s1'') tid)
          (entries (kvstore demo_two_sessions)))))"
proof -
  have cf: "colon_free (agent_id demo_two_sessions)" "colon_free (py ''a10'')"
    "colon_free (py ''s1'')" "colon_free (py ''s10'')" "py ''s10'' \<noteq> py ''s1''"
    by (simp_all add: demo_two_sessions_def demo_simps)
  have res: "fst (get_session_turns demo_turn_codec demo_two_sessions (py ''s1'')) =
     Inr [demo_turn ''t1'' None]"
    by (simp add: demo_two_sessions_def demo_simps)
  from get_session_turns_scope [of demo_turn_codec demo_two_sessions "py ''s1''"
      "[demo_turn ''t1'' None]" "py ''a10''" "py ''s10''" "py ''t2''" "py ''t2''"] cf res
  show ?thesis by blast
qed

text \<open>
  The claim as stated fails in three ways. A turn whose id starts with a code point
  above \<open>\xff\<close> is stored and can be read back by \<open>get_session_turn\<close>, but its key lies
  beyond the end key of the scan, so \<open>get_session_turns\<close> misses it. A turn added to
  the session \<open>s1:x\<close> is returned for the session \<open>s1\<close>. And in a store shared by two
  agents, a turn that agent \<open>a1:s1\<close> added to its session \<open>s2\<close> is returned to agent
  \<open>a1\<close> for its session \<open>s1\<close>.
\<close>

theorem get_session_turns_scope_counterexample:
  "fst (get_session_turn demo_turn_codec
          (add_turn_to_session demo_turn_codec demo_store (py ''s1'')
             \<lparr>turn_id = [256], completed_at = None, turn_content = []\<rparr>)
          (py ''s1'') [256]) =
     Inr (Some \<lparr>turn_id = [256], completed_at = None, turn_content = []\<rparr>) \<and>
   fst (get_session_turns demo_turn_codec
          (add_turn_to_session demo_turn_codec demo_store (py ''s1'')
             \<lparr>turn_id = [256], completed_at = None, turn_content = []\<rparr>)
          (py ''s1'')) = Inr [] \<and>
   fst (get_session_turns demo_turn_codec
          (add_turn_to_session demo_turn_codec demo_store (py ''s1:x'') (demo_turn ''t1'' None))
          (py ''s1'')) = Inr [demo_turn ''t1'' None] \<and>
   fst (get_session_turns demo_turn_codec
          (demo_store\<lparr>kvstore :=
             kvstore (add_turn_to_session demo_turn_codec
                \<lparr>agent_id = py ''a1:s1'', kvstore = kv_empty\<rparr> (py ''s2'')
                (demo_turn ''t1'' None))\<rparr>)
          (py ''s1'')) = Inr [demo_turn ''t1'' None]"
  by (simp add: demo_simps)

lemma added_turns_are_scanned:
  assumes ok: "codec_ok cd"
    and dist: "distinct (map turn_id turns)"
    and below: "list_all (\<lambda>t. turn_id t < xff4) turns"
    and empty: "fst (kv_range (turns_start_key (agent_id self) sid)
                  (turns_end_key (agent_id self) sid) (kvstore self)) = []"
  shows "mset (parse_turns cd []
           (fst (kv_range (turns_start_key (agent_id self) sid)
              (turns_end_key (agent_id self) sid)
              (kvstore (add_turns cd self sid turns))))) = mset turns"
proof -
  let ?ag = "agent_id self"
  let ?P = "\<lambda>(k, v). turns_start_key ?ag sid \<le> k \<and> k < turns_end_key ?ag sid"
  let ?pair = "\<lambda>t. (turn_key ?ag sid (turn_id t), model_dump_json cd t)"
  let ?new = "entries (kvstore (add_turns cd self sid turns))"
  from empty have none: "filter ?P (entries (kvstore self)) = []"
    by (simp add: kv_range_def)
  have inr: "?P (?pair t)" if "t \<in> set turns" for t
  proof -
    from that below have "turn_id t < xff4" by (simp add: list_all_iff)
    then have "\<exists>tid. tid < xff4 \<and> turn_key ?ag sid (turn_id t) = turn_key ?ag sid tid"
      by blast
    then show ?thesis
      by (simp only: turns_range_iff [symmetric] prod.case)
  qed
  have fresh: "\<forall>t \<in> set turns. turn_key ?ag sid (turn_id t) \<notin> fst ` set (entries (kvstore self))"
  proof
    fix t assume t: "t \<in> set turns"
    show "turn_key ?ag sid (turn_id t) \<notin> fst ` set (entries (kvstore self))"
    proof
      assume "turn_key ?ag sid (turn_id t) \<in> fst ` set (entries (kvstore self))"
      then obtain v where v: "(turn_key ?ag sid (turn_id t), v) \<in> set (entries (kvstore self))"
        by auto
      from inr [OF t] have "?P (turn_key ?ag sid (turn_id t), v)"
        by (simp only: prod.case)
      with v have "(turn_key ?ag sid (turn_id t), v) \<in> set (filter ?P (entries (kvstore self)))"
        by (simp only: set_filter mem_Collect_eq simp_thms)
      with none show False by (simp only: list.set empty_iff)
    qed
  qed
  have all: "filter ?P (map ?pair turns) = map ?pair turns"
  proof (rule filter_True)
    show "\<forall>x \<in> set (map ?pair turns). ?P x"
      using inr by (simp only: set_map ball_simps) blast
  qed
  have "mset (filter ?P ?new) = filter_mset ?P (mset ?new)"
    by (rule mset_filter)
  also have "mset ?new = mset (entries (kvstore self)) + mset (map ?pair turns)"
    by (rule add_turns_entries [OF dist fresh])
  also have "filter_mset ?P (mset (entries (kvstore self)) + mset (map ?pair turns)) =
      mset (filter ?P (entries (kvstore self))) + mset (filter ?P (map ?pair turns))"
    by (simp only: filter_union_mset mset_filter)
  also have "\<dots> = mset (map ?pair turns)"
    by (simp only: none all mset.simps add_0)
  finally have "mset (filter ?P ?new) = mset (map ?pair turns)" .
  then have "image_mset snd (mset (filter ?P ?new)) = image_mset snd (mset (map ?pair turns))"
    by (rule arg_cong)
  then have "mset (map snd (filter ?P ?new)) = mset (map snd (map ?pair turns))"
    by (simp only: mset_map)
  moreover have "map snd (map ?pair turns) = map (model_dump_json cd) turns"
    by (induction turns) simp_all
  ultimately have vals: "mset (map snd (filter ?P ?new)) = mset (map (model_dump_json cd) turns)"
    by (simp only:)
  have scan: "fst (kv_range (turns_start_key ?ag sid) (turns_end_key ?ag sid)
      (kvstore (add_turns cd self sid turns))) = map snd (filter ?P ?new)"
    by (simp add: kv_range_def)
  have parsed: "mset (List.map_filter (model_validate cd) vs) = mset turns"
    if "mset vs = mset (map (model_dump_json cd) turns)" for vs
  proof -
    have "mset (List.map_filter (model_validate cd) vs) =
        image_mset (\<lambda>v. the (model_validate cd v))
          (filter_mset (\<lambda>v. model_validate cd v \<noteq> None) (mset vs))"
      by (rule mset_map_filter)
    also have "mset vs = mset (map (model_dump_json cd) turns)" by (rule that)
    also have "filter_mset (\<lambda>v. model_validate cd v \<noteq> None)
          (mset (map (model_dump_json cd) turns)) =
        mset (filter (\<lambda>v. model_validate cd v \<noteq> None) (map (model_dump_json cd) turns))"
      by (simp only: mset_filter)
    also have "filter (\<lambda>v. model_validate cd v \<noteq> None) (map (model_dump_json cd) turns) =
        map (model_dump_json cd) turns"
      by (rule filter_True) (simp add: codec_ok_load [OF ok])
    also have "image_mset (\<lambda>v. the (model_validate cd v))
          (mset (map (model_dump_json cd) turns)) =
        mset (map (\<lambda>v. the (model_validate cd v)) (map (model_dump_json cd) turns))"
      by (simp only: mset_map)
    also have "map (\<lambda>v. the (model_validate cd v)) (map (model_dump_json cd) turns) = turns"
      by (induction turns) (simp_all add: codec_ok_load [OF ok])
    finally show ?thesis .
  qed
  show ?thesis
    by (simp only: scan parse_turns_acc append_Nil parsed [OF vals])
qed
text \<open>
  Claim C2, as amended. For every sequence of turns with pairwise-distinct turn ids below
  \<open>\xff\xff\xff\xff\<close> whose sort keys are mutually comparable (every \<open>completed_at\<close>
  naive or absent, or every one offset-aware), added to a session that holds no turn
  record yet, \<open>get_session_turns\<close> returns exactly these turns, sorted ascending by
  \<open>completed_at\<close> with an absent \<open>completed_at\<close> counting as \<open>datetime.min\<close>; every
  turn whose \<open>completed_at\<close> is absent comes before every turn whose timestamp is later
  than \<open>datetime.min\<close>; the sort is stable, so turns with equal sort keys keep their
  scan order.
\<close>

theorem get_session_turns_order:
  assumes "codec_ok cd"
    and "distinct (map turn_id turns)"
    and "list_all (\<lambda>t. turn_id t < xff4) turns"
    and "comparable_keys turns"
    and "fst (kv_range (turns_start_key (agent_id self) sid)
           (turns_end_key (agent_id self) sid) (kvstore self)) = []"
    and "self' = add_turns cd self sid turns"
  shows "\<exists>ts. fst (get_session_turns cd self' sid) = Inr ts \<and> mset ts = mset turns \<and>
     sorted (map (\<lambda>x. timestamp (turn_sort_key x)) ts) \<and>
     (\<forall>i j d. i < length ts \<and> j < length ts \<and> completed_at (ts ! i) = None \<and>
        completed_at (ts ! j) = Some d \<and> timestamp datetime_min < timestamp d \<longrightarrow> i < j) \<and>
     (\<forall>k. filter (\<lambda>x. timestamp (turn_sort_key x) = k) ts =
        filter (\<lambda>x. timestamp (turn_sort_key x) = k)
          (parse_turns cd [] (fst (kv_range (turns_start_key (agent_id self') sid)
             (turns_end_key (agent_id self') sid) (kvstore self')))))"
proof -
  let ?f = "\<lambda>x. timestamp (turn_sort_key x)"
  let ?scan = "parse_turns cd [] (fst (kv_range (turns_start_key (agent_id self') sid)
             (turns_end_key (agent_id self') sid) (kvstore self')))"
  have ag: "agent_id self' = agent_id self"
    using assms(6) by (simp add: add_turns_agent_id)
  have ms: "mset ?scan = mset turns"
    using added_turns_are_scanned [OF assms(1,2,3,5)] assms(6) ag by simp
  then have "set ?scan = set turns" by (rule mset_eq_setD)
  with assms(4) have cmp: "comparable_keys ?scan"
    by (simp add: comparable_keys_def list_all_iff)
  let ?ts = "sort_key ?f ?scan"
  have res: "fst (get_session_turns cd self' sid) = Inr ?ts"
    using cmp by (simp add: get_session_turns_def split_def Let_def sort_turns_iff)
  have mts: "mset ?ts = mset turns" using ms by simp
  have srt: "sorted (map ?f ?ts)" by (rule sorted_sort_key)
  have ord: "i < j"
    if b: "i < length ?ts" "j < length ?ts" and n: "completed_at (?ts ! i) = None"
      and s: "completed_at (?ts ! j) = Some d" and m: "timestamp datetime_min < timestamp d"
    for i j d
  proof (rule ccontr)
    assume "\<not> i < j"
    then have "j \<le> i" by simp
    with srt b have "map ?f ?ts ! j \<le> map ?f ?ts ! i"
      by (intro sorted_nth_mono) simp_all
    with b n s have "timestamp d \<le> timestamp datetime_min"
      by (simp add: turn_sort_key_def)
    with m show False by simp
  qed
  have stab: "filter (\<lambda>x. ?f x = k) ?ts = filter (\<lambda>x. ?f x = k) ?scan" for k
    by (rule sort_key_stable)
  from res mts srt ord stab show ?thesis by blast
qed

text \<open>
  Three turns added in the order \<open>a\<close> (completed at 5), \<open>b\<close> (not completed), \<open>c\<close>
  (completed at 3) come back as \<open>b\<close>, \<open>c\<close>, \<open>a\<close>.
\<close>

theorem get_session_turns_order_witness:
  "codec_ok demo_turn_codec \<and> distinct (map turn_id demo_three_turns) \<and>
   list_all (\<lambda>t. turn_id t < xff4) demo_three_turns \<and> comparable_keys demo_three_turns \<and>
   fst (kv_range (turns_start_key (agent_id demo_store) (py ''s1''))
          (turns_end_key (agent_id demo_store) (py ''s1'')) (kvstore demo_store)) = [] \<and>
   fst (get_session_turns demo_turn_codec
          (add_turns demo_turn_codec demo_store (py ''s1'') demo_three_turns) (py ''s1'')) =
     Inr [demo_turn ''b'' None, demo_turn ''c'' (Some (Naive 3)),
          demo_turn ''a'' (Some (Naive 5))] \<and>
   (\<exists>ts. fst (get_session_turns demo_turn_codec
          (add_turns demo_turn_codec demo_store (py ''s1'') demo_three_turns) (py ''s1'')) =
        Inr ts \<and> mset ts = mset demo_three_turns \<and>
        sorted (map (\<lambda>x. timestamp (turn_sort_key x)) ts))"
proof -
  have h: "distinct (map turn_id demo_three_turns)"
    "list_all (\<lambda>t. turn_id t < xff4) demo_three_turns"
    "comparable_keys demo_three_turns"
    "fst (kv_range (turns_start_key (agent_id demo_store) (py ''s1''))
          (turns_end_key (agent_id demo_store) (py ''s1'')) (kvstore demo_store)) = []"
    by (simp_all add: demo_three_turns_def demo_simps)
  have r: "fst (get_session_turns demo_turn_codec
          (add_turns demo_turn_codec demo_store (py ''s1'') demo_three_turns) (py ''s1'')) =
     Inr [demo_turn ''b'' None, demo_turn ''c'' (Some (Naive 3)),
          demo_turn ''a'' (Some (Naive 5))]"
    by (simp add: demo_three_turns_def demo_simps)
  from get_session_turns_order [OF demo_turn_codec_ok h refl] have
    "\<exists>ts. fst (get_session_turns demo_turn_codec
          (add_turns demo_turn_codec demo_store (py ''s1'') demo_three_turns) (py ''s1'')) =
        Inr ts \<and> mset ts = mset demo_three_turns \<and>
        sorted (map (\<lambda>x. timestamp (turn_sort_key x)) ts)"
    by blast
  with demo_turn_codec_ok h r show ?thesis by blast
qed

text \<open>
  The claim as stated fails in four ways. A turn stamped exactly \<open>datetime.min\<close> has
  the sort key of a turn without \<open>completed_at\<close>, so the two keep their scan order, and
  the timestamped turn \<open>a\<close> comes before the turn \<open>b\<close> whose \<open>completed_at\<close> is
  absent. With an offset-aware stamp and an absent one the sort raises \<open>TypeError\<close> and
  nothing is returned. A turn whose id is beyond the end of the scan is not returned.
  Of two turns added under one turn id only the second is returned.
\<close>

theorem get_session_turns_order_counterexample:
  "fst (get_session_turns demo_turn_codec
          (add_turns demo_turn_codec demo_store (py ''s1'')
             [demo_turn ''b'' None, demo_turn ''a'' (Some datetime_min)])
          (py ''s1'')) =
     Inr [demo_turn ''a'' (Some datetime_min), demo_turn ''b'' None] \<and>
   fst (get_session_turns demo_turn_codec
          (add_turns demo_turn_codec demo_store (py ''s1'')
             [demo_turn ''a'' (Some (Aware 5 0)), demo_turn ''b'' None])
          (py ''s1'')) = Inl TypeError \<and>
   fst (get_session_turns demo_turn_codec
          (add_turns demo_turn_codec demo_store (py ''s1'')
             [\<lparr>turn_id = [256], completed_at = Some (Naive 5), turn_content = []\<rparr>])
          (py ''s1'')) = Inr [] \<and>
   fst (get_session_turns demo_turn_codec
          (add_turns demo_turn_codec demo_store (py ''s1'')
             [demo_turn ''a'' (Some (Naive 5)), demo_turn ''a'' None])
          (py ''s1'')) = Inr [demo_turn ''a'' None]"
  by (simp add: demo_simps)

text \<open>
  Claim C3, as amended. A value of the scan that fails to deserialize is left out and
  never makes \<open>get_session_turns\<close> raise. When the sort keys of the parsed turns are
  mutually comparable the call returns, with multiplicities, exactly the turns parsed
  from the scanned values that deserialize; when they mix naive and offset-aware
  datetimes the sort raises \<open>TypeError\<close>.
\<close>

theorem get_session_turns_skips_corrupt:
  "(comparable_keys (parse_turns cd []
        (fst (kv_range (turns_start_key (agent_id self) sid)
           (turns_end_key (agent_id self) sid) (kvstore self)))) \<longrightarrow>
      (\<exists>ts. fst (get_session_turns cd self sid) = Inr ts \<and>
         mset ts =
           image_mset (\<lambda>v. the (model_validate cd v))
             (filter_mset (\<lambda>v. model_validate cd v \<noteq> None)
                (mset (fst (kv_range (turns_start_key (agent_id self) sid)
                   (turns_end_key (agent_id self) sid) (kvstore self))))))) \<and>
   (\<not> comparable_keys (parse_turns cd []
        (fst (kv_range (turns_start_key (agent_id self) sid)
           (turns_end_key (agent_id self) sid) (kvstore self)))) \<longrightarrow>
      fst (get_session_turns cd self sid) = Inl TypeError) \<and>
   fst (get_session_turns cd self sid) \<noteq> Inl DeserializationError"
  by (simp add: get_session_turns_def split_def Let_def sort_turns_iff parse_turns_acc
      mset_map_filter)

text \<open>
  A session whose scan returns one value that is not a serialized turn and one that is:
  the call succeeds with the one parsed turn.
\<close>

theorem get_session_turns_skips_corrupt_witness:
  "model_validate demo_turn_codec [1, 2, 3] = None \<and>
   fst (kv_range (turns_start_key (agent_id demo_corrupt) (py ''s1''))
          (turns_end_key (agent_id demo_corrupt) (py ''s1''))
          (kvstore demo_corrupt)) = [[1, 2, 3], dump_turn (demo_turn ''t2'' (Some (Naive 4)))] \<and>
   comparable_keys (parse_turns demo_turn_codec []
     (fst (kv_range (turns_start_key (agent_id demo_corrupt) (py ''s1''))
        (turns_end_key (agent_id demo_corrupt) (py ''s1'')) (kvstore demo_corrupt)))) \<and>
   fst (get_session_turns demo_turn_codec demo_corrupt (py ''s1'')) =
     Inr [demo_turn ''t2'' (Some (Naive 4))]"
proof -
  have scan: "fst (kv_range (turns_start_key (agent_id demo_corrupt) (py ''s1''))
          (turns_end_key (agent_id demo_corrupt) (py ''s1''))
          (kvstore demo_corrupt)) = [[1, 2, 3], dump_turn (demo_turn ''t2'' (Some (Naive 4)))]"
    by (simp add: demo_corrupt_def demo_simps)
  have bad: "model_validate demo_turn_codec [1, 2, 3] = None"
    by (simp add: demo_simps)
  have cmp: "comparable_keys (parse_turns demo_turn_codec []
     (fst (kv_range (turns_start_key (agent_id demo_corrupt) (py ''s1''))
        (turns_end_key (agent_id demo_corrupt) (py ''s1'')) (kvstore demo_corrupt))))"
    by (simp add: demo_corrupt_def demo_simps)
  have res: "fst (get_session_turns demo_turn_codec demo_corrupt (py ''s1'')) =
     Inr [demo_turn ''t2'' (Some (Naive 4))]"
    by (simp add: demo_corrupt_def demo_simps)
  from get_session_turns_skips_corrupt [of demo_turn_codec demo_corrupt "py ''s1''"]
    scan bad cmp res
  show ?thesis by blast
qed

text \<open>
  The claim as stated fails when the turns that do parse cannot be ordered: the scan
  returns a corrupt value, a turn with a naive stamp and a turn with an offset-aware
  stamp, and the call raises \<open>TypeError\<close> instead of returning the two parsed turns.
\<close>

theorem get_session_turns_skips_corrupt_counterexample:
  "fst (kv_range (turns_start_key (agent_id demo_mixed) (py ''s1''))
          (turns_end_key (agent_id demo_mixed) (py ''s1'')) (kvstore demo_mixed)) =
     [[1, 2, 3], dump_turn (demo_turn ''t2'' (Some (Naive 4))),
      dump_turn (demo_turn ''t3'' (Some (Aware 4 0)))] \<and>
   model_validate demo_turn_codec [1, 2, 3] = None \<and>
   model_validate demo_turn_codec (dump_turn (demo_turn ''t2'' (Some (Naive 4)))) =
     Some (demo_turn ''t2'' (Some (Naive 4))) \<and>
   model_validate demo_turn_codec (dump_turn (demo_turn ''t3'' (Some (Aware 4 0)))) =
     Some (demo_turn ''t3'' (Some (Aware 4 0))) \<and>
   fst (get_session_turns demo_turn_codec demo_mixed (py ''s1'')) = Inl TypeError"
  by (simp add: demo_mixed_def demo_corrupt_def demo_simps)

section \<open>Point reads\<close>

text \<open>
  Claim C4, as amended. For the point reads \<open>get_session_turn\<close> and
  \<open>get_in_progress_tool_call_step\<close>: when the key is unset the operation returns absent
  without error, and when the key is set to a non-empty value that fails to deserialize
  the operation raises.
\<close>

theorem point_reads_absent_or_error:
  "(fst (kv_get (turn_key (agent_id self) sid tid) (kvstore self)) = None \<longrightarrow>
      fst (get_session_turn cd self sid tid) = Inr None) \<and>
   (fst (kv_get (turn_key (agent_id self) sid tid) (kvstore self)) = Some v \<and> v \<noteq> [] \<and>
      model_validate cd v = None \<longrightarrow>
      fst (get_session_turn cd self sid tid) = Inl DeserializationError) \<and>
   (fst (kv_get (step_key (agent_id self) sid tid) (kvstore self)) = None \<longrightarrow>
      fst (get_in_progress_tool_call_step cd' self sid tid) = Inr None) \<and>
   (fst (kv_get (step_key (agent_id self) sid tid) (kvstore self)) = Some w \<and> w \<noteq> [] \<and>
      model_validate cd' w = None \<longrightarrow>
      fst (get_in_progress_tool_call_step cd' self sid tid) = Inl DeserializationError)"
  by (simp add: get_session_turn_def get_in_progress_tool_call_step_def split_def load_value_def)

text \<open>
  In a store with a corrupt turn and a corrupt step under \<open>t1\<close> and nothing under
  \<open>t9\<close>, both reads of \<open>t9\<close> return absent and both reads of \<open>t1\<close> raise.
\<close>

theorem point_reads_absent_or_error_witness:
  "fst (kv_get (turn_key (py ''a1'') (py ''s1'') (py ''t9'')) (kvstore demo_corrupt)) = None \<and>
   fst (get_session_turn demo_turn_codec demo_corrupt (py ''s1'') (py ''t9'')) = Inr None \<and>
   fst (kv_get (step_key (py ''a1'') (py ''s1'') (py ''t9'')) (kvstore demo_corrupt)) = None \<and>
   fst (get_in_progress_tool_call_step demo_step_codec demo_corrupt (py ''s1'') (py ''t9'')) =
     Inr None \<and>
   fst (kv_get (turn_key (py ''a1'') (py ''s1'') (py ''t1'')) (kvstore demo_corrupt)) =
     Some [1, 2, 3] \<and>
   model_validate demo_turn_codec [1, 2, 3] = None \<and>
   fst (get_session_turn demo_turn_codec demo_corrupt (py ''s1'') (py ''t1'')) =
     Inl DeserializationError \<and>
   fst (kv_get (step_key (py ''a1'') (py ''s1'') (py ''t1'')) (kvstore demo_corrupt)) =
     Some [1] \<and>
   model_validate demo_step_codec [1] = None \<and>
   fst (get_in_progress_tool_call_step demo_step_codec demo_corrupt (py ''s1'') (py ''t1'')) =
     Inl DeserializationError"
proof -
  have ag: "agent_id demo_corrupt = py ''a1''"
    by (simp add: demo_corrupt_def demo_simps)
  have unset: "fst (kv_get (turn_key (py ''a1'') (py ''s1'') (py ''t9'')) (kvstore demo_corrupt)) = None"
    "fst (kv_get (step_key (py ''a1'') (py ''s1'') (py ''t9'')) (kvstore demo_corrupt)) = None"
    by (simp_all add: demo_corrupt_def demo_simps)
  have bad: "fst (kv_get (turn_key (py ''a1'') (py ''s1'') (py ''t1'')) (kvstore demo_corrupt)) =
      Some [1, 2, 3]"
    "fst (kv_get (step_key (py ''a1'') (py ''s1'') (py ''t1'')) (kvstore demo_corrupt)) = Some [1]"
    "model_validate demo_turn_codec [1, 2, 3] = None"
    "model_validate demo_step_codec [1] = None"
    by (simp_all add: demo_corrupt_def demo_simps)
  from point_reads_absent_or_error
         [of demo_corrupt "py ''s1''" "py ''t9''" demo_turn_codec _ demo_step_codec]
       point_reads_absent_or_error
         [of demo_corrupt "py ''s1''" "py ''t1''" demo_turn_codec "[1, 2, 3]" demo_step_codec "[1]"]
       ag unset bad
  show ?thesis by simp
qed

text \<open>
  The claim as stated fails for a key set to the empty string: the value does not
  deserialize, yet \<open>if not value\<close> takes it for a missing one and both point reads
  return absent.
\<close>

theorem point_reads_absent_or_error_counterexample:
  "fst (kv_get (turn_key (py ''a1'') (py ''s1'') (py ''t1'')) (kvstore demo_blank)) = Some [] \<and>
   model_validate demo_turn_codec [] = None \<and>
   fst (get_session_turn demo_turn_codec demo_blank (py ''s1'') (py ''t1'')) = Inr None \<and>
   fst (kv_get (step_key (py ''a1'') (py ''s1'') (py ''t1'')) (kvstore demo_blank)) = Some [] \<and>
   model_validate demo_step_codec [] = None \<and>
   fst (get_in_progress_tool_call_step demo_step_codec demo_blank (py ''s1'') (py ''t1'')) =
     Inr None"
  by (simp add: demo_blank_def demo_simps)

section \<open>Sessions\<close>

text \<open>
  Claim C5. Given a serialization that satisfies \<open>codec_ok\<close>, \<open>create_session\<close>
  followed by \<open>get_session_info\<close> on the identifier it returned yields a present record
  whose \<open>session_name\<close> is the given name, whose \<open>started_at\<close> is the creation
  timestamp, and whose \<open>vector_db_id\<close> is absent.
\<close>

theorem create_session_then_get_session_info:
  "codec_ok cd \<Longrightarrow> create_session cd self uuid4 now name = (sid, self') \<Longrightarrow>
     sid = uuid4 \<and>
     (\<exists>info. fst (get_session_info cd self' sid) = Inr (Some info) \<and>
        session_id info = sid \<and> session_name info = name \<and> started_at info = now \<and>
        vector_db_id info = None)"
  by (auto simp: create_session_def Let_def get_session_info_def kv_get_def kv_set_def
      map_of_upsert load_value_dump)

theorem create_session_then_get_session_info_witness:
  "codec_ok demo_session_codec \<and>
   fst (create_session demo_session_codec demo_store (py ''u1'') (Naive 7) (py ''demo'')) = py ''u1'' \<and>
   fst (get_session_info demo_session_codec
          (snd (create_session demo_session_codec demo_store (py ''u1'') (Naive 7) (py ''demo'')))
          (py ''u1'')) =
     Inr (Some \<lparr>session_id = py ''u1'', session_name = py ''demo'', vector_db_id = None,
                 started_at = Naive 7\<rparr>)"
  using create_session_then_get_session_info
          [OF demo_session_codec_ok surjective_pairing, of demo_store "py ''u1''" "Naive 7" "py ''demo''"]
        demo_session_codec_ok
  by (simp add: demo_simps)

text \<open>
  Claim C6. When the session-metadata key of a session id is unset,
  \<open>add_vector_db_to_session\<close> raises the \<open>ValueError\<close> "Session ... not found" and
  performs no write: the entries of the store are unchanged and the only request the
  backend receives is the \<open>get\<close> of that key.
\<close>

theorem add_vector_db_to_session_not_found:
  "fst (kv_get (session_key (agent_id self) sid) (kvstore self)) = None \<Longrightarrow>
   add_vector_db_to_session cd self sid vdb = (r, self') \<Longrightarrow>
     r = Inl (ValueError (py ''Session '' @ sid @ py '' not found'')) \<and>
     agent_id self' = agent_id self \<and>
     entries (kvstore self') = entries (kvstore self) \<and>
     calls (kvstore self') = calls (kvstore self) @ [GetCall (session_key (agent_id self) sid)]"
  by (auto simp: add_vector_db_to_session_def get_session_info_def kv_get_def load_value_def)

theorem add_vector_db_to_session_not_found_witness:
  "fst (kv_get (session_key (agent_id demo_session) (py ''nope'')) (kvstore demo_session)) = None \<and>
   fst (add_vector_db_to_session demo_session_codec demo_session (py ''nope'') (py ''vdb-1'')) =
     Inl (ValueError (py ''Session nope not found'')) \<and>
   entries (kvstore (snd (add_vector_db_to_session demo_session_codec demo_session (py ''nope'')
     (py ''vdb-1'')))) = entries (kvstore demo_session)"
proof -
  have unset: "fst (kv_get (session_key (agent_id demo_session) (py ''nope''))
      (kvstore demo_session)) = None"
    by (simp add: demo_session_def demo_simps)
  from add_vector_db_to_session_not_found [OF unset surjective_pairing, of demo_session_codec
      "py ''vdb-1''"] unset
  show ?thesis by (simp add: py_def)
qed

text \<open>
  Claim C7. Given a serialization that satisfies \<open>codec_ok\<close>, for an existing session
  \<open>add_vector_db_to_session\<close> succeeds and the record read back afterwards has the
  \<open>session_id\<close>, \<open>session_name\<close> and \<open>started_at\<close> it had before; only
  \<open>vector_db_id\<close> is set.
\<close>

theorem add_vector_db_to_session_frame:
  "codec_ok cd \<Longrightarrow> fst (get_session_info cd self sid) = Inr (Some info) \<Longrightarrow>
   add_vector_db_to_session cd self sid vdb = (r, self') \<Longrightarrow>
     r = Inr () \<and>
     (\<exists>info'. fst (get_session_info cd self' sid) = Inr (Some info') \<and>
        session_id info' = session_id info \<and> session_name info' = session_name info \<and>
        started_at info' = started_at info \<and> vector_db_id info' = Some vdb)"
  by (auto simp: add_vector_db_to_session_def get_session_info_def kv_get_def kv_set_def
      map_of_upsert load_value_dump)

theorem add_vector_db_to_session_frame_witness:
  "codec_ok demo_session_codec \<and>
   fst (get_session_info demo_session_codec demo_session (py ''u1'')) =
     Inr (Some \<lparr>session_id = py ''u1'', session_name = py ''demo'', vector_db_id = None,
                 started_at = Naive 7\<rparr>) \<and>
   fst (add_vector_db_to_session demo_session_codec demo_session (py ''u1'') (py ''vdb-1'')) =
     Inr () \<and>
   fst (get_session_info demo_session_codec
          (snd (add_vector_db_to_session demo_session_codec demo_session (py ''u1'')
             (py ''vdb-1''))) (py ''u1'')) =
     Inr (Some \<lparr>session_id = py ''u1'', session_name = py ''demo'',
                 vector_db_id = Some (py ''vdb-1''), started_at = Naive 7\<rparr>)"
proof -
  have before: "fst (get_session_info demo_session_codec demo_session (py ''u1'')) =
     Inr (Some \<lparr>session_id = py ''u1'', session_name = py ''demo'', vector_db_id = None,
                 started_at = Naive 7\<rparr>)"
    by (simp add: demo_session_def demo_simps)
  from add_vector_db_to_session_frame [OF demo_session_codec_ok before surjective_pairing,
      of "py ''vdb-1''"] before demo_session_codec_ok
  show ?thesis by auto
qed

section \<open>In-progress tool calls\<close>

text \<open>
  Claim C8. Given a serialization that satisfies \<open>codec_ok\<close>, after two consecutive
  \<open>set_in_progress_tool_call_step\<close> calls for the same session and turn with different
  steps, \<open>get_in_progress_tool_call_step\<close> returns the second step and not the first;
  in a well-formed store the key holds a single entry, the second step.
\<close>

theorem set_in_progress_tool_call_step_overwrites:
  "codec_ok cd \<Longrightarrow> step1 \<noteq> step2 \<Longrightarrow>
   self' = set_in_progress_tool_call_step cd
             (set_in_progress_tool_call_step cd self sid tid step1) sid tid step2 \<Longrightarrow>
     fst (get_in_progress_tool_call_step cd self' sid tid) = Inr (Some step2) \<and>
     fst (get_in_progress_tool_call_step cd self' sid tid) \<noteq> Inr (Some step1) \<and>
     (kv_inv (kvstore self) \<longrightarrow>
        filter (\<lambda>(k, v). k = step_key (agent_id self) sid tid) (entries (kvstore self')) =
          [(step_key (agent_id self) sid tid, model_dump_json cd step2)])"
  by (auto simp: set_in_progress_tool_call_step_def get_in_progress_tool_call_step_def
      kv_get_def kv_set_def kv_inv_def map_of_upsert load_value_dump upsert_filter_key
      upsert_sorted)

theorem set_in_progress_tool_call_step_overwrites_witness:
  "codec_ok demo_step_codec \<and> py ''x'' \<noteq> py ''y'' \<and> kv_inv (kvstore demo_session) \<and>
   fst (get_in_progress_tool_call_step demo_step_codec
          (set_in_progress_tool_call_step demo_step_codec
             (set_in_progress_tool_call_step demo_step_codec demo_session (py ''u1'') (py ''a'')
                (py ''x''))
             (py ''u1'') (py ''a'') (py ''y''))
          (py ''u1'') (py ''a'')) = Inr (Some (py ''y''))"
proof -
  have ne: "py ''x'' \<noteq> py ''y''" by (simp add: py_def)
  have inv: "kv_inv (kvstore demo_session)"
    by (simp add: kv_inv_def demo_session_def demo_simps)
  from set_in_progress_tool_call_step_overwrites [OF demo_step_codec_ok ne refl,
      of demo_session "py ''u1''" "py ''a''"] ne inv demo_step_codec_ok
  show ?thesis by simp
qed

section \<open>What the operations write\<close>

text \<open>
  Claim C9. The four read operations leave the entries of the store as they were, and
  the one request each of them sends to the backend is a \<open>get\<close> or a \<open>range\<close>,
  never a \<open>set\<close>.
\<close>

theorem reads_issue_no_write:
  "entries (kvstore (snd (get_session_info cd1 self sid))) = entries (kvstore self) \<and>
   calls (kvstore (snd (get_session_info cd1 self sid))) =
     calls (kvstore self) @ [GetCall (session_key (agent_id self) sid)] \<and>
   entries (kvstore (snd (get_session_turns cd2 self sid))) = entries (kvstore self) \<and>
   calls (kvstore (snd (get_session_turns cd2 self sid))) =
     calls (kvstore self) @
       [RangeCall (turns_start_key (agent_id self) sid) (turns_end_key (agent_id self) sid)] \<and>
   entries (kvstore (snd (get_session_turn cd2 self sid tid))) = entries (kvstore self) \<and>
   calls (kvstore (snd (get_session_turn cd2 self sid tid))) =
     calls (kvstore self) @ [GetCall (turn_key (agent_id self) sid tid)] \<and>
   entries (kvstore (snd (get_in_progress_tool_call_step cd3 self sid tid))) =
     entries (kvstore self) \<and>
   calls (kvstore (snd (get_in_progress_tool_call_step cd3 self sid tid))) =
     calls (kvstore self) @ [GetCall (step_key (agent_id self) sid tid)]"
  by (simp add: get_session_info_def get_session_turns_def get_session_turn_def
      get_in_progress_tool_call_step_def kv_get_def kv_range_def)

theorem reads_issue_no_write_witness:
  "entries (kvstore (snd (get_session_turns demo_turn_codec demo_session (py ''u1'')))) =
     entries (kvstore demo_session) \<and>
   fst (get_session_turns demo_turn_codec demo_session (py ''u1'')) =
     Inr [demo_turn ''a'' (Some (Naive 5))]"
  using reads_issue_no_write [of demo_session_codec demo_session "py ''u1''" demo_turn_codec]
  by (simp add: demo_session_def demo_simps)

text \<open>
  Claim C10. Every successful mutation sends exactly one \<open>set\<close> to the backend, for the
  key derived from its arguments by the key schema (\<open>add_vector_db_to_session\<close> reads
  that same key first); afterwards that key holds the serialized record that was
  written, and the value stored under any other key \<open>k\<close> is unchanged.
\<close>

theorem mutations_write_one_key:
  "calls (kvstore (snd (create_session cd1 self uuid4 now name))) =
     calls (kvstore self) @
       [SetCall (session_key (agent_id self) uuid4)
          (model_dump_json cd1 \<lparr>session_id = uuid4, session_name = name,
             vector_db_id = None, started_at = now\<rparr>)] \<and>
   map_of (entries (kvstore (snd (create_session cd1 self uuid4 now name))))
       (session_key (agent_id self) uuid4) =
     Some (model_dump_json cd1 \<lparr>session_id = uuid4, session_name = name,
             vector_db_id = None, started_at = now\<rparr>) \<and>
   (k \<noteq> session_key (agent_id self) uuid4 \<longrightarrow>
      map_of (entries (kvstore (snd (create_session cd1 self uuid4 now name)))) k =
        map_of (entries (kvstore self)) k) \<and>
   (fst (add_vector_db_to_session cd1 self sid vdb) = Inr () \<longrightarrow>
      (\<exists>info. fst (get_session_info cd1 self sid) = Inr (Some info) \<and>
         calls (kvstore (snd (add_vector_db_to_session cd1 self sid vdb))) =
           calls (kvstore self) @
             [GetCall (session_key (agent_id self) sid),
              SetCall (session_key (agent_id self) sid)
                (model_dump_json cd1 (info\<lparr>vector_db_id := Some vdb\<rparr>))] \<and>
         map_of (entries (kvstore (snd (add_vector_db_to_session cd1 self sid vdb))))
             (session_key (agent_id self) sid) =
           Some (model_dump_json cd1 (info\<lparr>vector_db_id := Some vdb\<rparr>))) \<and>
      (k \<noteq> session_key (agent_id self) sid \<longrightarrow>
         map_of (entries (kvstore (snd (add_vector_db_to_session cd1 self sid vdb)))) k =
           map_of (entries (kvstore self)) k)) \<and>
   calls (kvstore (add_turn_to_session cd2 self sid turn)) =
     calls (kvstore self) @
       [SetCall (turn_key (agent_id self) sid (turn_id turn)) (model_dump_json cd2 turn)] \<and>
   map_of (entries (kvstore (add_turn_to_session cd2 self sid turn)))
       (turn_key (agent_id self) sid (turn_id turn)) = Some (model_dump_json cd2 turn) \<and>
   (k \<noteq> turn_key (agent_id self) sid (turn_id turn) \<longrightarrow>
      map_of (entries (kvstore (add_turn_to_session cd2 self sid turn))) k =
        map_of (entries (kvstore self)) k) \<and>
   calls (kvstore (set_in_progress_tool_call_step cd3 self sid tid step)) =
     calls (kvstore self) @
       [SetCall (step_key (agent_id self) sid tid) (model_dump_json cd3 step)] \<and>
   map_of (entries (kvstore (set_in_progress_tool_call_step cd3 self sid tid step)))
       (step_key (agent_id self) sid tid) = Some (model_dump_json cd3 step) \<and>
   (k \<noteq> step_key (agent_id self) sid tid \<longrightarrow>
      map_of (entries (kvstore (set_in_progress_tool_call_step cd3 self sid tid step))) k =
        map_of (entries (kvstore self)) k)"
proof -
  have cr: "calls (kvstore (snd (create_session cd1 self uuid4 now name))) =
     calls (kvstore self) @
       [SetCall (session_key (agent_id self) uuid4)
          (model_dump_json cd1 \<lparr>session_id = uuid4, session_name = name,
             vector_db_id = None, started_at = now\<rparr>)] \<and>
   map_of (entries (kvstore (snd (create_session cd1 self uuid4 now name))))
       (session_key (agent_id self) uuid4) =
     Some (model_dump_json cd1 \<lparr>session_id = uuid4, session_name = name,
             vector_db_id = None, started_at = now\<rparr>) \<and>
   (k \<noteq> session_key (agent_id self) uuid4 \<longrightarrow>
      map_of (entries (kvstore (snd (create_session cd1 self uuid4 now name)))) k =
        map_of (entries (kvstore self)) k)"
    by (simp add: create_session_def Let_def kv_set_def map_of_upsert)
  have vdb: "(\<exists>info. fst (get_session_info cd1 self sid) = Inr (Some info) \<and>
         calls (kvstore (snd (add_vector_db_to_session cd1 self sid vdb))) =
           calls (kvstore self) @
             [GetCall (session_key (agent_id self) sid),
              SetCall (session_key (agent_id self) sid)
                (model_dump_json cd1 (info\<lparr>vector_db_id := Some vdb\<rparr>))] \<and>
         map_of (entries (kvstore (snd (add_vector_db_to_session cd1 self sid vdb))))
             (session_key (agent_id self) sid) =
           Some (model_dump_json cd1 (info\<lparr>vector_db_id := Some vdb\<rparr>))) \<and>
      (k \<noteq> session_key (agent_id self) sid \<longrightarrow>
         map_of (entries (kvstore (snd (add_vector_db_to_session cd1 self sid vdb)))) k =
           map_of (entries (kvstore self)) k)"
    if "fst (add_vector_db_to_session cd1 self sid vdb) = Inr ()"
    using that
    by (auto simp: add_vector_db_to_session_def get_session_info_def kv_get_def kv_set_def
        map_of_upsert split: sum.splits option.splits)
  have tn: "calls (kvstore (add_turn_to_session cd2 self sid turn)) =
     calls (kvstore self) @
       [SetCall (turn_key (agent_id self) sid (turn_id turn)) (model_dump_json cd2 turn)] \<and>
   map_of (entries (kvstore (add_turn_to_session cd2 self sid turn)))
       (turn_key (agent_id self) sid (turn_id turn)) = Some (model_dump_json cd2 turn) \<and>
   (k \<noteq> turn_key (agent_id self) sid (turn_id turn) \<longrightarrow>
      map_of (entries (kvstore (add_turn_to_session cd2 self sid turn))) k =
        map_of (entries (kvstore self)) k)"
    by (simp add: add_turn_to_session_def kv_set_def map_of_upsert)
  have st: "calls (kvstore (set_in_progress_tool_call_step cd3 self sid tid step)) =
     calls (kvstore self) @
       [SetCall (step_key (agent_id self) sid tid) (model_dump_json cd3 step)] \<and>
   map_of (entries (kvstore (set_in_progress_tool_call_step cd3 self sid tid step)))
       (step_key (agent_id self) sid tid) = Some (model_dump_json cd3 step) \<and>
   (k \<noteq> step_key (agent_id self) sid tid \<longrightarrow>
      map_of (entries (kvstore (set_in_progress_tool_call_step cd3 self sid tid step))) k =
        map_of (entries (kvstore self)) k)"
    by (simp add: set_in_progress_tool_call_step_def kv_set_def map_of_upsert)
  from cr vdb tn st show ?thesis by blast
qed

text \<open>
  On a store that holds the session \<open>u1\<close> and its turn \<open>a\<close>, each of the four
  mutations leaves the turn \<open>a\<close> as it was and stores its own record under its own key.
\<close>

theorem mutations_write_one_key_witness:
  "fst (add_vector_db_to_session demo_session_codec demo_session (py ''u1'') (py ''vdb-1'')) =
     Inr () \<and>
   turn_key (py ''a1'') (py ''u1'') (py ''a'') \<noteq> session_key (agent_id demo_session) (py ''u2'') \<and>
   turn_key (py ''a1'') (py ''u1'') (py ''a'') \<noteq> session_key (agent_id demo_session) (py ''u1'') \<and>
   turn_key (py ''a1'') (py ''u1'') (py ''a'') \<noteq>
     turn_key (agent_id demo_session) (py ''u1'') (turn_id (demo_turn ''b'' None)) \<and>
   turn_key (py ''a1'') (py ''u1'') (py ''a'') \<noteq>
     step_key (agent_id demo_session) (py ''u1'') (py ''a'') \<and>
   map_of (entries (kvstore demo_session)) (turn_key (py ''a1'') (py ''u1'') (py ''a'')) =
     Some (dump_turn (demo_turn ''a'' (Some (Naive 5)))) \<and>
   map_of (entries (kvstore (snd (create_session demo_session_codec demo_session (py ''u2'')
     (Naive 9) (py ''next''))))) (turn_key (py ''a1'') (py ''u1'') (py ''a'')) =
     Some (dump_turn (demo_turn ''a'' (Some (Naive 5)))) \<and>
   map_of (entries (kvstore (snd (add_vector_db_to_session demo_session_codec demo_session
     (py ''u1'') (py ''vdb-1''))))) (turn_key (py ''a1'') (py ''u1'') (py ''a'')) =
     Some (dump_turn (demo_turn ''a'' (Some (Naive 5)))) \<and>
   map_of (entries (kvstore (add_turn_to_session demo_turn_codec demo_session (py ''u1'')
     (demo_turn ''b'' None)))) (turn_key (py ''a1'') (py ''u1'') (py ''a'')) =
     Some (dump_turn (demo_turn ''a'' (Some (Naive 5)))) \<and>
   map_of (entries (kvstore (set_in_progress_tool_call_step demo_step_codec demo_session
     (py ''u1'') (py ''a'') (py ''x'')))) (turn_key (py ''a1'') (py ''u1'') (py ''a'')) =
     Some (dump_turn (demo_turn ''a'' (Some (Naive 5)))) \<and>
   map_of (entries (kvstore (snd (create_session demo_session_codec demo_session (py ''u2'')
     (Naive 9) (py ''next''))))) (session_key (agent_id demo_session) (py ''u2'')) =
     Some (dump_session_info \<lparr>session_id = py ''u2'', session_name = py ''next'',
       vector_db_id = None, started_at = Naive 9\<rparr>) \<and>
   map_of (entries (kvstore (snd (add_vector_db_to_session demo_session_codec demo_session
     (py ''u1'') (py ''vdb-1''))))) (session_key (agent_id demo_session) (py ''u1'')) =
     Some (dump_session_info \<lparr>session_id = py ''u1'', session_name = py ''demo'',
       vector_db_id = Some (py ''vdb-1''), started_at = Naive 7\<rparr>) \<and>
   map_of (entries (kvstore (add_turn_to_session demo_turn_codec demo_session (py ''u1'')
     (demo_turn ''b'' None))))
     (turn_key (agent_id demo_session) (py ''u1'') (turn_id (demo_turn ''b'' None))) =
     Some (dump_turn (demo_turn ''b'' None)) \<and>
   map_of (entries (kvstore (set_in_progress_tool_call_step demo_step_codec demo_session
     (py ''u1'') (py ''a'') (py ''x'')))) (step_key (agent_id demo_session) (py ''u1'') (py ''a'')) =
     Some (123 # py ''x'')"
proof -
  let ?k = "turn_key (py ''a1'') (py ''u1'') (py ''a'')"
  have ok: "fst (add_vector_db_to_session demo_session_codec demo_session (py ''u1'')
      (py ''vdb-1'')) = Inr ()"
    by (simp add: demo_session_def demo_simps)
  have ne: "?k \<noteq> session_key (agent_id demo_session) (py ''u2'')"
    "?k \<noteq> session_key (agent_id demo_session) (py ''u1'')"
    "?k \<noteq> turn_key (agent_id demo_session) (py ''u1'') (turn_id (demo_turn ''b'' None))"
    "?k \<noteq> step_key (agent_id demo_session) (py ''u1'') (py ''a'')"
    by (simp_all add: demo_session_def demo_simps)
  have old: "map_of (entries (kvstore demo_session)) ?k =
      Some (dump_turn (demo_turn ''a'' (Some (Naive 5))))"
    by (simp add: demo_session_def demo_simps)
  have before: "fst (get_session_info demo_session_codec demo_session (py ''u1'')) =
     Inr (Some \<lparr>session_id = py ''u1'', session_name = py ''demo'', vector_db_id = None,
                 started_at = Naive 7\<rparr>)"
    by (simp add: demo_session_def demo_simps)
  from mutations_write_one_key [of demo_session_codec demo_session "py ''u2''" "Naive 9"
      "py ''next''" ?k "py ''u1''" "py ''vdb-1''" demo_turn_codec "demo_turn ''b'' None"
      demo_step_codec "py ''a''" "py ''x''"] ok ne old before
  show ?thesis by (auto simp: demo_session_codec_def demo_turn_codec_def demo_step_codec_def)
qed

end
